theory Spec2Isabelle
  imports Main "HOL-Library.Char_ord" "HOL-Library.List_Lexorder"
begin

section \<open>Values, errors and markers\<close>

text \<open>
  Python values that travel through a call: integers, strings, and the reference to the
  bound service that is passed as the receiver.
\<close>

datatype pyval = IntV int | StrV string | ServiceV

text \<open>
  Every \<^verbatim>\<open>raise\<close> of the code is a value of this type. The argument of
  \<open>TypeError\<close> is the message that \<^verbatim>\<open>inspect.Signature.bind\<close> attaches.
\<close>

datatype bind_failure =
    TooManyPositional
  | MultipleValues string
  | MissingArgument string
  | UnexpectedKeyword string

datatype error =
    NameError string
  | ValueError
  | TypeError bind_failure
  | KeyError string
  | AttributeError string
  | ConnectError
  | HTTPStatusError nat
  | DecodingError

text \<open>
  Modelled from the spec: the concrete parameter markers of
  \<^verbatim>\<open>combadge.support.http.markers\<close> (imported by the integration tests, absent
  from the sources). Each names the request location its argument goes to.
\<close>

datatype parameter_marker = QueryParam string | Header string | FormField string

text \<open>Response markers are opaque to the binder; they are told apart by a label.\<close>

datatype response_marker = ResponseMarker string

text \<open>
  A method marker is an object with one operation, \<^verbatim>\<open>wrap(callable) -> callable\<close>.
\<close>

datatype 'c method_marker = MethodMarker (wrap: "'c \<Rightarrow> 'c")

section \<open>Reflection: annotations, methods, types\<close>

text \<open>
  An annotation as \<^verbatim>\<open>get_annotations\<close> returns it: the name of the underlying type,
  the metadata of \<^verbatim>\<open>Annotated[T, ...]\<close> in declaration order (empty when the
  annotation is a bare type), and the type's \<^verbatim>\<open>__fields__\<close> table
  (\<open>None\<close> when the type has no such attribute). A field of the table is identified with
  its \<^verbatim>\<open>.annotation\<close>.
\<close>

datatype meta = ParameterMeta parameter_marker | ResponseMeta response_marker | OtherMeta string

datatype annotation =
  Annotation (origin: string) (metadata: "meta list") (fields_attr: "(string \<times> annotation) list option")

text \<open>
  Modelled from the spec: \<^verbatim>\<open>ParameterMarker.extract\<close> and
  \<^verbatim>\<open>ResponseMarker.extract\<close> of \<^verbatim>\<open>combadge.core.markers\<close> (absent from the
  sources) return every attached marker of their kind, in declaration order, and an empty
  sequence when there is none.
\<close>

fun ParameterMarker_extract :: "annotation \<Rightarrow> parameter_marker list" where
  "ParameterMarker_extract a = concat (map (\<lambda>m. case m of ParameterMeta p \<Rightarrow> [p] | _ \<Rightarrow> []) (metadata a))"

fun ResponseMarker_extract :: "annotation \<Rightarrow> response_marker list" where
  "ResponseMarker_extract a = concat (map (\<lambda>m. case m of ResponseMeta r \<Rightarrow> [r] | _ \<Rightarrow> []) (metadata a))"

text \<open>
  Modelled from the spec: \<^verbatim>\<open>SuccessfulResponse\<close> of
  \<^verbatim>\<open>combadge.core.response\<close> (absent from the sources), the generic
  "successful, empty" record type: a field table with no field.
\<close>

definition SuccessfulResponse :: annotation where
  "SuccessfulResponse = Annotation ''SuccessfulResponse'' [] (Some [])"

text \<open>A formal parameter (positional-or-keyword) with its default, if it declares one.\<close>

record param =
  pname :: string
  pdefault :: "pyval option"

text \<open>
  How a callable attribute was defined in the class body. Reading a
  \<^verbatim>\<open>classmethod\<close> through the class yields a bound method, whose signature has lost
  the first declared parameter.
\<close>

datatype descriptor_kind = PlainFunction | ClassMethod | StaticMethod

text \<open>
  A method object: its kind, its parameters as written in the \<^verbatim>\<open>def\<close>, its
  \<^verbatim>\<open>__annotations__\<close> (\<open>None\<close> for a string annotation that does not
  evaluate), and the method markers attached to it, in the order
  \<^verbatim>\<open>MethodMarker.ensure_markers\<close> returns them.
\<close>

record 'c pymethod =
  kind :: descriptor_kind
  def_parameters :: "param list"
  annotations :: "(string \<times> annotation option) list"
  markers :: "'c method_marker list"

text \<open>\<^verbatim>\<open>inspect.signature(method).parameters\<close>.\<close>

definition get_signature :: "'c pymethod \<Rightarrow> error + param list" where
  "get_signature m =
     (case kind m of
        ClassMethod \<Rightarrow> (case def_parameters m of [] \<Rightarrow> Inl ValueError | _ # ps \<Rightarrow> Inr ps)
      | _ \<Rightarrow> Inr (def_parameters m))"

text \<open>\<^verbatim>\<open>get_annotations(method, eval_str=True)\<close>: the first annotation that does not
  evaluate raises.\<close>

fun get_annotations :: "(string \<times> annotation option) list \<Rightarrow> error + (string \<times> annotation) list" where
  "get_annotations [] = Inr []"
| "get_annotations ((n, None) # rest) = Inl (NameError n)"
| "get_annotations ((n, Some a) # rest) =
     (case get_annotations rest of Inl e \<Rightarrow> Inl e | Inr hs \<Rightarrow> Inr ((n, a) # hs))"

section \<open>Argument binding\<close>

text \<open>
  \<^verbatim>\<open>inspect.Signature.bind\<close> for positional-or-keyword parameters. Positional
  arguments fill the parameters from the left; the remaining parameters are looked up among
  the keywords; a keyword left over is an error. The result,
  \<^verbatim>\<open>BoundArguments\<close>, keeps the signature it was bound against.
\<close>

record bound_arguments =
  ba_signature :: "param list"
  arguments :: "(string \<times> pyval) list"

fun bind_keywords :: "param list \<Rightarrow> (string \<times> pyval) list \<Rightarrow> error + (string \<times> pyval) list" where
  "bind_keywords [] kwargs =
     (case kwargs of [] \<Rightarrow> Inr [] | (k, v) # rest \<Rightarrow> Inl (TypeError (UnexpectedKeyword k)))"
| "bind_keywords (p # ps) kwargs =
     (case map_of kwargs (pname p) of
        None \<Rightarrow>
          (case pdefault p of
             None \<Rightarrow> Inl (TypeError (MissingArgument (pname p)))
           | Some d \<Rightarrow> bind_keywords ps kwargs)
      | Some v \<Rightarrow>
          (case bind_keywords ps (filter (\<lambda>kv. fst kv \<noteq> pname p) kwargs) of
             Inl e \<Rightarrow> Inl e
           | Inr bound \<Rightarrow> Inr ((pname p, v) # bound)))"

fun bind_positional :: "param list \<Rightarrow> pyval list \<Rightarrow> (string \<times> pyval) list \<Rightarrow> error + (string \<times> pyval) list" where
  "bind_positional ps [] kwargs = bind_keywords ps kwargs"
| "bind_positional [] (a # args) kwargs = Inl (TypeError TooManyPositional)"
| "bind_positional (p # ps) (a # args) kwargs =
     (if pname p \<in> set (map fst kwargs) then Inl (TypeError (MultipleValues (pname p)))
      else (case bind_positional ps args kwargs of
              Inl e \<Rightarrow> Inl e
            | Inr bound \<Rightarrow> Inr ((pname p, a) # bound)))"

definition signature_bind :: "param list \<Rightarrow> pyval list \<Rightarrow> (string \<times> pyval) list \<Rightarrow> error + bound_arguments" where
  "signature_bind ps args kwargs =
     (case bind_positional ps args kwargs of
        Inl e \<Rightarrow> Inl e
      | Inr bound \<Rightarrow> Inr \<lparr>ba_signature = ps, arguments = bound\<rparr>)"


section \<open>Signature\<close>

datatype bound_parameter_marker = BoundParameterMarker (bpm_name: string) (marker: parameter_marker)

datatype bound_response_markers = BoundResponseMarkers (brm_name: string) (brm_markers: "response_marker list")

record 'c signature =
  bind_arguments :: "pyval list \<Rightarrow> (string \<times> pyval) list \<Rightarrow> error + bound_arguments"
  method_markers :: "'c method_marker list"
  return_type :: annotation
  parameter_markers :: "bound_parameter_marker list"
  response_markers :: "bound_response_markers list"

definition extract_parameter_markers :: "(string \<times> annotation) list \<Rightarrow> bound_parameter_marker list" where
  "extract_parameter_markers from_annotations =
     concat (map (\<lambda>(name, annotation). map (BoundParameterMarker name) (ParameterMarker_extract annotation))
                 from_annotations)"

definition extract_return_type :: "(string \<times> annotation) list \<Rightarrow> annotation" where
  "extract_return_type from_annotations =
     (case map_of from_annotations ''return'' of None \<Rightarrow> SuccessfulResponse | Some t \<Rightarrow> t)"

text \<open>\<^verbatim>\<open>getattr(return_type, "__fields__", None) or {}\<close>, as its list of items.\<close>

definition fields_or_empty :: "annotation \<Rightarrow> (string \<times> annotation) list" where
  "fields_or_empty t = (case fields_attr t of None \<Rightarrow> [] | Some fs \<Rightarrow> fs)"

definition from_method :: "'c pymethod \<Rightarrow> error + 'c signature" where
  "from_method m =
     (case get_annotations (annotations m) of
        Inl e \<Rightarrow> Inl e
      | Inr type_hints \<Rightarrow>
          (let rt = extract_return_type type_hints;
               rms = map (\<lambda>(attribute_name, field).
                            BoundResponseMarkers attribute_name (ResponseMarker_extract field))
                         (fields_or_empty rt)
           in case get_signature m of
                Inl e \<Rightarrow> Inl e
              | Inr ps \<Rightarrow>
                  Inr \<lparr>bind_arguments = signature_bind ps,
                       method_markers = markers m,
                       return_type = rt,
                       parameter_markers = extract_parameter_markers type_hints,
                       response_markers = rms\<rparr>))"

section \<open>Interface types and their members\<close>

text \<open>
  A class attribute is a callable (a method object) or some other value. An interface type
  is known by its identity, its name, whether it was created through \<^verbatim>\<open>ABCMeta\<close>
  (as \<^verbatim>\<open>Protocol\<close> classes are, which gives their subclasses the attribute
  \<^verbatim>\<open>__abstractmethods__\<close>), and the class dictionaries along its
  \<^verbatim>\<open>__mro__\<close>, its own first.
\<close>

datatype 'c member = Callable "'c pymethod" | NonCallable

record 'c pytype =
  type_ident :: nat
  type_name :: string
  abc_meta :: bool
  mro :: "(string \<times> 'c member) list list"

text \<open>\<^verbatim>\<open>getattr(cls, name)\<close>: the first dictionary of the MRO that has the name.\<close>

fun lookup_mro :: "(string \<times> 'c member) list list \<Rightarrow> string \<Rightarrow> 'c member option" where
  "lookup_mro [] n = None"
| "lookup_mro (d # ds) n = (case map_of d n of Some v \<Rightarrow> Some v | None \<Rightarrow> lookup_mro ds n)"

text \<open>\<^verbatim>\<open>dir(cls)\<close>: the names of the class and of all its bases, sorted, each once.\<close>

definition dir_names :: "'c pytype \<Rightarrow> string list" where
  "dir_names t = sort (remdups (concat (map (map fst) (mro t))))"

definition is_callable :: "'c member \<Rightarrow> bool" where
  "is_callable v = (case v of Callable m \<Rightarrow> True | NonCallable \<Rightarrow> False)"

text \<open>
  \<^verbatim>\<open>inspect.getmembers(cls, predicate)\<close>: the pairs (name, value) for the names of
  \<^verbatim>\<open>dir(cls)\<close> whose value satisfies the predicate, sorted by name.
\<close>

definition get_members :: "'c pytype \<Rightarrow> ('c member \<Rightarrow> bool) \<Rightarrow> (string \<times> 'c member) list" where
  "get_members t predicate =
     concat (map (\<lambda>n. case lookup_mro (mro t) n of
                         None \<Rightarrow> []
                       | Some v \<Rightarrow> if predicate v then [(n, v)] else [])
                 (dir_names t))"

section \<open>The binder\<close>

definition startswith_underscore :: "string \<Rightarrow> bool" where
  "startswith_underscore name = (case name of [] \<Rightarrow> False | c # cs \<Rightarrow> c = CHR ''_'')"

text \<open>
  \<^verbatim>\<open>_enumerate_methods\<close> is a generator: it yields the methods it keeps, and an
  exception of \<^verbatim>\<open>inspect.signature\<close> ends it after the items yielded so far. The
  result is the list of items yielded and the exception that ended the iteration, if any.
\<close>

fun enumerate_loop :: "(string \<times> 'c member) list \<Rightarrow> (string \<times> 'c pymethod) list \<times> error option" where
  "enumerate_loop [] = ([], None)"
| "enumerate_loop ((name, NonCallable) # rest) = enumerate_loop rest"
| "enumerate_loop ((name, Callable m) # rest) =
     (if startswith_underscore name then enumerate_loop rest
      else (case get_signature m of
              Inl e \<Rightarrow> ([], Some e)
            | Inr parameters \<Rightarrow>
                if ''self'' \<notin> set (map pname parameters) then enumerate_loop rest
                else (case enumerate_loop rest of (items, exc) \<Rightarrow> ((name, m) # items, exc))))"

definition enumerate_methods :: "'c pytype \<Rightarrow> (string \<times> 'c pymethod) list \<times> error option" where
  "enumerate_methods of_protocol = enumerate_loop (get_members of_protocol is_callable)"

text \<open>\<^verbatim>\<open>_wrap\<close>: the loop \<^verbatim>\<open>for mark in with_marks: method = mark.wrap(method)\<close>.\<close>

fun wrap_with_marks :: "'c \<Rightarrow> 'c method_marker list \<Rightarrow> 'c" where
  "wrap_with_marks m [] = m"
| "wrap_with_marks m (mark # with_marks) = wrap_with_marks (wrap mark m) with_marks"

text \<open>
  The synthesized class: its identity (a fresh one for every execution of the
  \<^verbatim>\<open>class BoundService\<close> statement), its name, whether it still has
  \<^verbatim>\<open>__abstractmethods__\<close>, and the attributes that \<^verbatim>\<open>setattr\<close> installed.
\<close>

record 'c bound_class =
  class_ident :: nat
  class_name :: string
  has_abstractmethods :: bool
  class_attrs :: "(string \<times> 'c) list"

fun setattr :: "string \<Rightarrow> 'v \<Rightarrow> (string \<times> 'v) list \<Rightarrow> (string \<times> 'v) list" where
  "setattr name v [] = [(name, v)]"
| "setattr name v ((n, w) # rest) = (if n = name then (n, v) # rest else (n, w) # setattr name v rest)"

text \<open>
  \<^verbatim>\<open>_update_bound_service\<close>: deleting \<^verbatim>\<open>__abstractmethods__\<close> raises when the
  class has none; then the class is renamed after the protocol.
\<close>

definition update_bound_service :: "'c bound_class \<Rightarrow> 'c pytype \<Rightarrow> error + 'c bound_class" where
  "update_bound_service service_class with_protocol =
     (if \<not> has_abstractmethods service_class then Inl (AttributeError ''__abstractmethods__'')
      else Inr (service_class\<lparr>has_abstractmethods := False,
                              class_name := class_name service_class @ ''['' @ type_name with_protocol @ '']''\<rparr>))"

text \<open>A method binder: a function object (known by its identity) from signatures to callables.\<close>

record 'c method_binder =
  binder_ident :: nat
  call_binder :: "'c signature \<Rightarrow> 'c"

text \<open>
  The loop of \<^verbatim>\<open>bind_class\<close> over the enumerated methods.
  \<^verbatim>\<open>update_wrapper\<close> copies the name and the documentation of the method onto the
  callable and does not change what it computes; it has no counterpart here.
\<close>

fun install_methods :: "'c method_binder \<Rightarrow> (string \<times> 'c pymethod) list \<Rightarrow> (string \<times> 'c) list \<Rightarrow> error + (string \<times> 'c) list" where
  "install_methods mb [] attrs = Inr attrs"
| "install_methods mb ((name, m) # rest) attrs =
     (case from_method m of
        Inl e \<Rightarrow> Inl e
      | Inr signature \<Rightarrow>
          install_methods mb rest
            (setattr name (wrap_with_marks (call_binder mb signature) (method_markers signature)) attrs))"

text \<open>The body of \<^verbatim>\<open>bind_class\<close>, run on a cache miss; \<open>ident\<close> is the identity of
  the class object that the \<^verbatim>\<open>class\<close> statement creates.\<close>

definition bind_class_body :: "nat \<Rightarrow> 'c pytype \<Rightarrow> 'c method_binder \<Rightarrow> error + 'c bound_class" where
  "bind_class_body ident from_protocol mb =
     (case enumerate_methods from_protocol of
        (items, exc) \<Rightarrow>
          (case install_methods mb items [] of
             Inl e \<Rightarrow> Inl e
           | Inr attrs \<Rightarrow>
               (case exc of
                  Some e \<Rightarrow> Inl e
                | None \<Rightarrow>
                    update_bound_service
                      \<lparr>class_ident = ident, class_name = ''BoundService'',
                       has_abstractmethods = abc_meta from_protocol, class_attrs = attrs\<rparr>
                      from_protocol)))"

subsection \<open>The memoization table\<close>









subsection \<open>Bound service instances\<close>

text \<open>
  A bound service instance knows its class and holds its attributes by name.
  \<^verbatim>\<open>BaseBoundService.__init__\<close> assigns \<^verbatim>\<open>self.backend\<close>.
\<close>

record 'b bound_service =
  service_class :: nat
  attributes :: "(string \<times> 'b) list"




section \<open>Requests\<close>

text \<open>
  Modelled from the spec: the request representation
  (\<^verbatim>\<open>combadge.support.rest.request.Request\<close>, absent from the sources). The backend
  reads its method, path, JSON body and query parameters; the tests also use headers and
  form fields. Every location that markers write to is a multi-valued slot: a list of
  (name, value) pairs in the order they were placed.
\<close>

record request =
  request_method :: string
  request_path :: string
  json_body :: "pyval option"
  query_params :: "(string \<times> pyval) list"
  headers :: "(string \<times> pyval) list"
  form_data :: "(string \<times> pyval) list"


definition json_dict :: "request \<Rightarrow> pyval option" where
  "json_dict r = json_body r"




section \<open>The HTTPX backend\<close>

text \<open>
  What \<^verbatim>\<open>AsyncClient.request\<close> is called with: the two positional arguments and the
  keyword arguments \<^verbatim>\<open>json\<close>, \<^verbatim>\<open>params\<close>, \<^verbatim>\<open>headers\<close> and
  \<^verbatim>\<open>data\<close> (\<open>None\<close> is the client's default for a keyword that is not passed).
\<close>

record client_call =
  cc_method :: string
  cc_url :: string
  cc_json :: "pyval option"
  cc_params :: "(string \<times> pyval) list option"
  cc_headers :: "(string \<times> pyval) list option"
  cc_data :: "(string \<times> pyval) list option"

record response =
  status_code :: nat
  content :: string

text \<open>\<^verbatim>\<open>Response.raise_for_status\<close>: any status outside 2xx raises.\<close>

definition raise_for_status :: "response \<Rightarrow> error option" where
  "raise_for_status r =
     (if 200 \<le> status_code r \<and> status_code r \<le> 299 then None
      else Some (HTTPStatusError (status_code r)))"

text \<open>
  What a call does to the outside, in order: it enters and leaves the request scope
  (\<^verbatim>\<open>_request_with\<close>, by default a null context), invokes the transport, and
  decodes a response.
\<close>

datatype event = EnterRequestScope | Transport client_call | Decode response | ExitRequestScope

type_synonym response_extractors = "(string \<times> (response \<Rightarrow> pyval)) list"

text \<open>
  The backend object: its client, as the function from a call to what the call returns or
  raises, and \<^verbatim>\<open>_parse_response\<close>, which the backend inherits from
  \<^verbatim>\<open>BaseHttpxBackend\<close> (absent from the sources) and which is therefore a
  parameter of the model.
\<close>

record 'r httpx_backend =
  client :: "client_call \<Rightarrow> error + response"
  parse_response :: "response \<Rightarrow> annotation \<Rightarrow> response_extractors \<Rightarrow> error + 'r"

text \<open>\<^verbatim>\<open>HttpxBackend.__call__\<close>: the result and the events of the call.\<close>

definition transport_arguments :: "request \<Rightarrow> client_call" where
  "transport_arguments r =
     \<lparr>cc_method = request_method r, cc_url = request_path r, cc_json = json_dict r,
      cc_params = Some (query_params r), cc_headers = None, cc_data = None\<rparr>"

definition HttpxBackend_call :: "'r httpx_backend \<Rightarrow> request \<Rightarrow> annotation \<Rightarrow> response_extractors \<Rightarrow> (error + 'r) \<times> event list" where
  "HttpxBackend_call self r response_type response_extractors =
     (case client self (transport_arguments r) of
        Inl e \<Rightarrow> (Inl e, [Transport (transport_arguments r)])
      | Inr resp \<Rightarrow>
          (case raise_for_status resp of
             Some e \<Rightarrow> (Inl e, [Transport (transport_arguments r)])
           | None \<Rightarrow>
               (parse_response self resp response_type response_extractors,
                [Transport (transport_arguments r), Decode resp])))"






section \<open>The interfaces of the integration tests\<close>

text \<open>
  \<^verbatim>\<open>get_anything(self, foo: Annotated[int, QueryParam("foobar")],
  bar: Annotated[int, QueryParam("foobar")]) -> Response\<close> of
  \<^verbatim>\<open>test_query_params\<close>, where \<^verbatim>\<open>Response\<close> has the one field
  \<^verbatim>\<open>args: Dict[str, Any]\<close>.
\<close>

definition args_Response :: annotation where
  "args_Response = Annotation ''Response'' [] (Some [(''args'', Annotation ''Dict'' [] None)])"

definition get_anything :: "'c pymethod" where
  "get_anything =
     \<lparr>kind = PlainFunction,
      def_parameters =
        [\<lparr>pname = ''self'', pdefault = None\<rparr>, \<lparr>pname = ''foo'', pdefault = None\<rparr>,
         \<lparr>pname = ''bar'', pdefault = None\<rparr>],
      annotations =
        [(''foo'', Some (Annotation ''int'' [ParameterMeta (QueryParam ''foobar'')] None)),
         (''bar'', Some (Annotation ''int'' [ParameterMeta (QueryParam ''foobar'')] None)),
         (''return'', Some args_Response)],
      markers = []\<rparr>"





text \<open>A method annotated \<^verbatim>\<open>-> int\<close>: its return type has no field table.\<close>

definition returns_int :: "'c pymethod" where
  "returns_int =
     \<lparr>kind = PlainFunction, def_parameters = [\<lparr>pname = ''self'', pdefault = None\<rparr>],
      annotations = [(''return'', Some (Annotation ''int'' [] None))], markers = []\<rparr>"

text \<open>
  An interface in the style of the tests, with callables written as the list of the wraps
  around them: \<^verbatim>\<open>post_anything\<close> is declared on the interface and decorated with
  \<^verbatim>\<open>@http_method\<close> above \<^verbatim>\<open>@path\<close>; its base declares
  \<^verbatim>\<open>ping(self)\<close>, the class method \<^verbatim>\<open>bind(cls, to_backend)\<close>, the static
  method \<^verbatim>\<open>helper(value)\<close> and \<^verbatim>\<open>__init__\<close>.
\<close>

definition path_marker :: "string list method_marker" where
  "path_marker = MethodMarker (Cons ''path'')"

definition http_method_marker :: "string list method_marker" where
  "http_method_marker = MethodMarker (Cons ''http_method'')"

definition post_anything :: "string list pymethod" where
  "post_anything =
     \<lparr>kind = PlainFunction,
      def_parameters =
        [\<lparr>pname = ''self'', pdefault = None\<rparr>, \<lparr>pname = ''bar'', pdefault = None\<rparr>,
         \<lparr>pname = ''qux'', pdefault = None\<rparr>],
      annotations =
        [(''bar'', Some (Annotation ''int'' [ParameterMeta (FormField ''barqux'')] None)),
         (''qux'', Some (Annotation ''int'' [ParameterMeta (FormField ''barqux'')] None))],
      markers = [path_marker, http_method_marker]\<rparr>"

definition ping :: "string list pymethod" where
  "ping =
     \<lparr>kind = PlainFunction, def_parameters = [\<lparr>pname = ''self'', pdefault = None\<rparr>],
      annotations = [], markers = []\<rparr>"

definition bind_classmethod :: "string list pymethod" where
  "bind_classmethod =
     \<lparr>kind = ClassMethod,
      def_parameters = [\<lparr>pname = ''cls'', pdefault = None\<rparr>, \<lparr>pname = ''to_backend'', pdefault = None\<rparr>],
      annotations = [], markers = []\<rparr>"

definition helper :: "string list pymethod" where
  "helper =
     \<lparr>kind = StaticMethod, def_parameters = [\<lparr>pname = ''value'', pdefault = None\<rparr>],
      annotations = [], markers = []\<rparr>"

definition SupportsHttpbin :: "string list pytype" where
  "SupportsHttpbin =
     \<lparr>type_ident = 1, type_name = ''SupportsHttpbin'', abc_meta = True,
      mro =
        [[(''post_anything'', Callable post_anything), (''_cache'', NonCallable)],
         [(''ping'', Callable ping), (''bind'', Callable bind_classmethod),
          (''helper'', Callable helper), (''__init__'', Callable ping)]]\<rparr>"

definition tagging_binder :: "string list method_binder" where
  "tagging_binder = \<lparr>binder_ident = 0, call_binder = (\<lambda>signature. [''bound''])\<rparr>"














section \<open>Properties of the signature extractor\<close>

lemma from_method_InrD:
  assumes "from_method m = Inr sig"
  obtains type_hints ps where
    "get_annotations (annotations m) = Inr type_hints"
    "get_signature m = Inr ps"
    "sig = \<lparr>bind_arguments = signature_bind ps,
            method_markers = markers m,
            return_type = extract_return_type type_hints,
            parameter_markers = extract_parameter_markers type_hints,
            response_markers =
              map (\<lambda>(attribute_name, field).
                     BoundResponseMarkers attribute_name (ResponseMarker_extract field))
                  (fields_or_empty (extract_return_type type_hints))\<rparr>"
  using assms
  by (auto simp: from_method_def Let_def split: sum.splits)

text \<open>
  Claim C2, as the code has it: the signature holds one entry for every field of the return
  type's field table, in the order of the table, under the field's name and with the
  response markers extracted from the field. A field without response markers is not left
  out: its entry carries the empty list that the extraction returns.
\<close>

theorem from_method_response_markers:
  assumes "from_method m = Inr sig"
  shows "map brm_name (response_markers sig) = map fst (fields_or_empty (return_type sig)) \<and>
         map brm_markers (response_markers sig) =
           map (\<lambda>field. ResponseMarker_extract (snd field)) (fields_or_empty (return_type sig))"
  using assms by (elim from_method_InrD) (simp add: case_prod_unfold comp_def)

theorem from_method_response_markers_witness:
  "(case from_method (get_anything :: unit pymethod) of Inl e \<Rightarrow> False
    | Inr sig \<Rightarrow>
        map brm_name (response_markers sig) = [''args''] \<and>
        map brm_markers (response_markers sig) = [[]])"
proof -
  obtain sig where s: "from_method (get_anything :: unit pymethod) = Inr sig"
    by (simp add: from_method_def get_anything_def get_signature_def Let_def)
  have rt: "return_type sig = args_Response"
    using s by (auto simp: from_method_def get_anything_def get_signature_def Let_def extract_return_type_def)
  show ?thesis
    using from_method_response_markers [OF s]
    by (simp add: s rt args_Response_def fields_or_empty_def)
qed

text \<open>
  Claim C2 as stated fails: the field \<^verbatim>\<open>args\<close> of the response of
  \<^verbatim>\<open>get_anything\<close> carries no response marker, and the signature has an entry for it.
\<close>

theorem unmarked_field_entry_counterexample:
  "ResponseMarker_extract (Annotation ''Dict'' [] None) = [] \<and>
   (case from_method (get_anything :: unit pymethod) of Inl e \<Rightarrow> None
    | Inr sig \<Rightarrow> Some (response_markers sig)) = Some [BoundResponseMarkers ''args'' []]"
  by (simp add: from_method_def get_anything_def get_signature_def Let_def
      extract_return_type_def args_Response_def fields_or_empty_def)

text \<open>
  Claim C10: when the annotations of a method evaluate, its signature can be read and the
  resolved return type has no \<^verbatim>\<open>__fields__\<close> attribute, the extraction succeeds, and
  the signature it returns has that return type and an empty list of response entries.
\<close>

theorem from_method_without_fields:
  assumes "get_annotations (annotations m) = Inr type_hints"
    and "get_signature m = Inr ps"
    and "fields_attr (extract_return_type type_hints) = None"
  shows "\<exists>sig. from_method m = Inr sig \<and> response_markers sig = [] \<and>
               return_type sig = extract_return_type type_hints"
  using assms by (simp add: from_method_def Let_def fields_or_empty_def)

theorem from_method_without_fields_witness:
  "\<exists>sig. from_method (returns_int :: unit pymethod) = Inr sig \<and> response_markers sig = [] \<and>
         return_type sig = Annotation ''int'' [] None"
proof -
  have a: "get_annotations (annotations (returns_int :: unit pymethod)) = Inr [(''return'', Annotation ''int'' [] None)]"
    by (simp add: returns_int_def)
  have b: "get_signature (returns_int :: unit pymethod) = Inr [\<lparr>pname = ''self'', pdefault = None\<rparr>]"
    by (simp add: returns_int_def get_signature_def)
  have c: "fields_attr (extract_return_type [(''return'', Annotation ''int'' [] None)]) = None"
    by (simp add: extract_return_type_def)
  show ?thesis
    using from_method_without_fields [OF a b c] by (simp add: extract_return_type_def)
qed

section \<open>Properties of the binder\<close>

lemma wrap_with_marks_foldl: "wrap_with_marks m ms = foldl (\<lambda>f mark. wrap mark f) m ms"
  by (induction ms arbitrary: m) simp_all

lemma wrap_with_marks_snoc: "wrap_with_marks m (ms @ [k]) = wrap k (wrap_with_marks m ms)"
  by (simp add: wrap_with_marks_foldl)

lemma map_of_setattr_same: "map_of (setattr n v attrs) n = Some v"
  by (induction attrs) auto

lemma map_of_setattr_other: "n' \<noteq> n \<Longrightarrow> map_of (setattr n v attrs) n' = map_of attrs n'"
  by (induction attrs) auto

lemma set_fst_setattr: "fst ` set (setattr n v attrs) = insert n (fst ` set attrs)"
  by (induction attrs) (force split: if_splits)+

lemma install_methods_other:
  "install_methods mb items attrs = Inr attrs' \<Longrightarrow> name \<notin> fst ` set items \<Longrightarrow>
   map_of attrs' name = map_of attrs name"
proof (induction items arbitrary: attrs)
  case Nil
  then show ?case by simp
next
  case (Cons item items)
  obtain n m where item: "item = (n, m)" by (cases item)
  from Cons.prems(1) obtain sig where sig: "from_method m = Inr sig"
    and rest: "install_methods mb items
                 (setattr n (wrap_with_marks (call_binder mb sig) (method_markers sig)) attrs) = Inr attrs'"
    by (auto simp: item split: sum.splits)
  from Cons.prems(2) have "name \<noteq> n" "name \<notin> fst ` set items" by (auto simp: item)
  then show ?case
    using Cons.IH [OF rest] by (simp add: map_of_setattr_other)
qed

lemma install_methods_names:
  "install_methods mb items attrs = Inr attrs' \<Longrightarrow>
   fst ` set attrs' = fst ` set items \<union> fst ` set attrs"
proof (induction items arbitrary: attrs)
  case Nil
  then show ?case by simp
next
  case (Cons item items)
  obtain n m where item: "item = (n, m)" by (cases item)
  from Cons.prems(1) obtain sig where sig: "from_method m = Inr sig"
    and rest: "install_methods mb items
                 (setattr n (wrap_with_marks (call_binder mb sig) (method_markers sig)) attrs) = Inr attrs'"
    by (auto simp: item split: sum.splits)
  show ?case
    using Cons.IH [OF rest] by (simp add: item set_fst_setattr)
qed

lemma install_methods_installed:
  "install_methods mb items attrs = Inr attrs' \<Longrightarrow> distinct (map fst items) \<Longrightarrow>
   (name, m) \<in> set items \<Longrightarrow> from_method m = Inr sig \<Longrightarrow>
   map_of attrs' name = Some (wrap_with_marks (call_binder mb sig) (method_markers sig))"
proof (induction items arbitrary: attrs)
  case Nil
  then show ?case by simp
next
  case (Cons item items)
  obtain n m' where item: "item = (n, m')" by (cases item)
  from Cons.prems(1) obtain sig' where sig': "from_method m' = Inr sig'"
    and rest: "install_methods mb items
                 (setattr n (wrap_with_marks (call_binder mb sig') (method_markers sig')) attrs) = Inr attrs'"
    by (auto simp: item split: sum.splits)
  from Cons.prems(2) have dist: "n \<notin> fst ` set items" "distinct (map fst items)"
    by (auto simp: item)
  show ?case
  proof (cases "name = n")
    case True
    then have "m = m'" using Cons.prems(3) dist(1) by (force simp: item)
    then have "sig' = sig" using sig' Cons.prems(4) by simp
    then show ?thesis
      using install_methods_other [OF rest, of name] dist(1) True
      by (simp add: map_of_setattr_same)
  next
    case False
    then have "(name, m) \<in> set items" using Cons.prems(3) by (simp add: item)
    then show ?thesis using Cons.IH [OF rest dist(2) _ Cons.prems(4)] by simp
  qed
qed

lemma distinct_dir_names: "distinct (dir_names t)"
  by (simp add: dir_names_def)

lemma map_fst_concat_option:
  "distinct ns \<Longrightarrow>
   distinct (map fst (concat (map (\<lambda>n. case f n of None \<Rightarrow> []
                                        | Some v \<Rightarrow> if p v then [(n, v)] else []) ns)))"
  by (induction ns) (auto split: option.splits)

lemma distinct_get_members: "distinct (map fst (get_members t p))"
  unfolding get_members_def by (rule map_fst_concat_option) (rule distinct_dir_names)

lemma lookup_mro_name: "lookup_mro ds n = Some v \<Longrightarrow> n \<in> set (concat (map (map fst) ds))"
proof (induction ds)
  case Nil
  then show ?case by simp
next
  case (Cons d ds)
  then show ?case
    by (auto split: option.splits dest: map_of_SomeD intro: rev_image_eqI)
qed

lemma set_get_members:
  "(n, v) \<in> set (get_members t p) \<longleftrightarrow> lookup_mro (mro t) n = Some v \<and> p v"
proof -
  have "lookup_mro (mro t) n = Some v \<Longrightarrow> n \<in> set (dir_names t)"
    by (simp add: dir_names_def lookup_mro_name del: set_concat)
  then show ?thesis
    by (auto simp: get_members_def split: option.splits if_splits)
qed

lemma enumerate_loop_items:
  "(n, m) \<in> set (fst (enumerate_loop xs)) \<Longrightarrow>
   (n, Callable m) \<in> set xs \<and> \<not> startswith_underscore n \<and>
   (\<exists>ps. get_signature m = Inr ps \<and> ''self'' \<in> set (map pname ps))"
  by (induction xs rule: enumerate_loop.induct) (auto split: if_splits sum.splits prod.splits)

lemma enumerate_loop_complete:
  "snd (enumerate_loop xs) = None \<Longrightarrow> (n, Callable m) \<in> set xs \<Longrightarrow>
   \<not> startswith_underscore n \<Longrightarrow> get_signature m = Inr ps \<Longrightarrow> ''self'' \<in> set (map pname ps) \<Longrightarrow>
   (n, m) \<in> set (fst (enumerate_loop xs))"
  by (induction xs rule: enumerate_loop.induct) (auto split: if_splits sum.splits prod.splits)

lemma enumerate_loop_names: "fst ` set (fst (enumerate_loop xs)) \<subseteq> fst ` set xs"
proof
  fix n assume "n \<in> fst ` set (fst (enumerate_loop xs))"
  then obtain m where "(n, m) \<in> set (fst (enumerate_loop xs))" by auto
  then have "(n, Callable m) \<in> set xs" by (simp add: enumerate_loop_items)
  then show "n \<in> fst ` set xs" by force
qed

lemma distinct_enumerate_loop:
  "distinct (map fst xs) \<Longrightarrow> distinct (map fst (fst (enumerate_loop xs)))"
proof (induction xs rule: enumerate_loop.induct)
  case 1
  then show ?case by simp
next
  case (2 name rest)
  then show ?case by simp
next
  case (3 name m rest)
  have "name \<notin> fst ` set (fst (enumerate_loop rest))"
    using "3.prems" enumerate_loop_names [of rest] by auto
  then show ?case
    using 3 by (auto split: if_splits sum.splits prod.splits)
qed

lemma bind_class_body_InrD:
  assumes "bind_class_body ident p mb = Inr cls"
  obtains items attrs where
    "enumerate_methods p = (items, None)"
    "install_methods mb items [] = Inr attrs"
    "class_attrs cls = attrs" "class_ident cls = ident"
  using assms
  by (auto simp: bind_class_body_def update_bound_service_def
      split: prod.splits sum.splits option.splits if_splits)

lemma enumerate_SupportsHttpbin:
  "enumerate_methods SupportsHttpbin = ([(''ping'', ping), (''post_anything'', post_anything)], None)"
  by (simp add: enumerate_methods_def get_members_def dir_names_def SupportsHttpbin_def
      is_callable_def startswith_underscore_def get_signature_def
      post_anything_def ping_def bind_classmethod_def helper_def)

lemma SupportsHttpbin_abc: "abc_meta SupportsHttpbin"
  by (simp add: SupportsHttpbin_def)

text \<open>
  Claim C8: the attribute installed under the name of an enumerated method is the callable
  that the method binder returns for the method's signature, wrapped by the signature's
  method markers from the first to the last: a left fold of \<^verbatim>\<open>wrap\<close>. Hence the
  wrap of the last marker of the list is the outermost.
\<close>

theorem installed_method_is_fold:
  assumes "bind_class_body ident from_protocol mb = Inr cls"
    and "(name, m) \<in> set (fst (enumerate_methods from_protocol))"
    and "from_method m = Inr signature"
  shows "map_of (class_attrs cls) name =
           Some (foldl (\<lambda>method mark. wrap mark method)
                   (call_binder mb signature) (method_markers signature)) \<and>
         (\<forall>marks last. method_markers signature = marks @ [last] \<longrightarrow>
            map_of (class_attrs cls) name =
              Some (wrap last (foldl (\<lambda>method mark. wrap mark method)
                                 (call_binder mb signature) marks)))"
proof -
  from assms(1) obtain items attrs where
    en: "enumerate_methods from_protocol = (items, None)"
    and inst: "install_methods mb items [] = Inr attrs"
    and attrs: "class_attrs cls = attrs"
    by (rule bind_class_body_InrD)
  have dist: "distinct (map fst items)"
    using distinct_enumerate_loop [OF distinct_get_members, of from_protocol is_callable] en
    by (simp add: enumerate_methods_def)
  have mem: "(name, m) \<in> set items" using assms(2) en by simp
  have "map_of (class_attrs cls) name =
          Some (wrap_with_marks (call_binder mb signature) (method_markers signature))"
    using install_methods_installed [OF inst dist mem assms(3)] attrs by simp
  then show ?thesis
    by (simp add: wrap_with_marks_foldl)
qed

theorem installed_method_is_fold_witness:
  "\<exists>cls. bind_class_body 7 SupportsHttpbin tagging_binder = Inr cls \<and>
         map_of (class_attrs cls) ''post_anything'' = Some [''http_method'', ''path'', ''bound'']"
proof -
  obtain signature where s: "from_method post_anything = Inr signature"
    by (simp add: from_method_def post_anything_def get_signature_def Let_def)
  have mm: "method_markers signature = [path_marker, http_method_marker]"
    using s by (auto simp: from_method_def post_anything_def get_signature_def Let_def)
  obtain s2 where s2: "from_method ping = Inr s2"
    by (simp add: from_method_def ping_def get_signature_def Let_def)
  obtain cls where c: "bind_class_body 7 SupportsHttpbin tagging_binder = Inr cls"
    by (simp add: bind_class_body_def enumerate_SupportsHttpbin s s2 update_bound_service_def
        SupportsHttpbin_abc)
  have e: "(''post_anything'', post_anything) \<in> set (fst (enumerate_methods SupportsHttpbin))"
    by (simp add: enumerate_SupportsHttpbin)
  have cb: "call_binder tagging_binder signature = [''bound'']"
    by (simp add: tagging_binder_def)
  show ?thesis
    using installed_method_is_fold [OF c e s]
    by (simp add: c mm cb path_marker_def http_method_marker_def)
qed

text \<open>
  Claim C3, as the code has it: the names installed on the bound class are the names of the
  enumerated methods, and a method is enumerated exactly when it is a callable attribute
  that looking the name up on the interface finds (on the interface itself or on a base),
  its name does not start with an underscore, and its signature has a parameter named
  \<^verbatim>\<open>self\<close>.
\<close>

theorem installed_methods_characterised:
  assumes "bind_class_body ident from_protocol mb = Inr cls"
  shows "fst ` set (class_attrs cls) = fst ` set (fst (enumerate_methods from_protocol)) \<and>
         ((name, m) \<in> set (fst (enumerate_methods from_protocol)) \<longleftrightarrow>
            lookup_mro (mro from_protocol) name = Some (Callable m) \<and>
            \<not> startswith_underscore name \<and>
            (\<exists>ps. get_signature m = Inr ps \<and> ''self'' \<in> set (map pname ps)))"
proof -
  from assms(1) obtain items attrs where
    en: "enumerate_methods from_protocol = (items, None)"
    and inst: "install_methods mb items [] = Inr attrs"
    and attrs: "class_attrs cls = attrs"
    by (rule bind_class_body_InrD)
  have names: "fst ` set (class_attrs cls) = fst ` set (fst (enumerate_methods from_protocol))"
    using install_methods_names [OF inst] attrs en by simp
  have loop: "enumerate_loop (get_members from_protocol is_callable) = (items, None)"
    using en by (simp add: enumerate_methods_def)
  have "(name, m) \<in> set items \<longleftrightarrow>
          lookup_mro (mro from_protocol) name = Some (Callable m) \<and>
          \<not> startswith_underscore name \<and>
          (\<exists>ps. get_signature m = Inr ps \<and> ''self'' \<in> set (map pname ps))"
  proof
    assume "(name, m) \<in> set items"
    then have "(name, m) \<in> set (fst (enumerate_loop (get_members from_protocol is_callable)))"
      by (simp add: loop)
    from enumerate_loop_items [OF this] show
      "lookup_mro (mro from_protocol) name = Some (Callable m) \<and>
       \<not> startswith_underscore name \<and>
       (\<exists>ps. get_signature m = Inr ps \<and> ''self'' \<in> set (map pname ps))"
      by (simp add: set_get_members)
  next
    assume r: "lookup_mro (mro from_protocol) name = Some (Callable m) \<and>
       \<not> startswith_underscore name \<and>
       (\<exists>ps. get_signature m = Inr ps \<and> ''self'' \<in> set (map pname ps))"
    then obtain ps where ps: "get_signature m = Inr ps" "''self'' \<in> set (map pname ps)" by blast
    have g: "(name, Callable m) \<in> set (get_members from_protocol is_callable)"
      using r by (simp add: set_get_members is_callable_def)
    have "snd (enumerate_loop (get_members from_protocol is_callable)) = None"
      by (simp add: loop)
    from enumerate_loop_complete [OF this g _ ps] r
    show "(name, m) \<in> set items" by (simp add: loop)
  qed
  then show ?thesis using names en by simp
qed

theorem installed_methods_characterised_witness:
  "\<exists>cls. bind_class_body 7 SupportsHttpbin tagging_binder = Inr cls \<and>
         fst ` set (class_attrs cls) = {''ping'', ''post_anything''} \<and>
         lookup_mro (mro SupportsHttpbin) ''ping'' = Some (Callable ping) \<and>
         get_signature ping = Inr [\<lparr>pname = ''self'', pdefault = None\<rparr>]"
proof -
  obtain signature where s: "from_method post_anything = Inr signature"
    by (simp add: from_method_def post_anything_def get_signature_def Let_def)
  obtain s2 where s2: "from_method ping = Inr s2"
    by (simp add: from_method_def ping_def get_signature_def Let_def)
  obtain cls where c: "bind_class_body 7 SupportsHttpbin tagging_binder = Inr cls"
    by (simp add: bind_class_body_def enumerate_SupportsHttpbin s s2 update_bound_service_def
        SupportsHttpbin_abc)
  have l: "lookup_mro (mro SupportsHttpbin) ''ping'' = Some (Callable ping)"
    by (simp add: SupportsHttpbin_def)
  have g: "get_signature ping = Inr [\<lparr>pname = ''self'', pdefault = None\<rparr>]"
    by (simp add: get_signature_def ping_def)
  have "fst ` set (class_attrs cls) = {''ping'', ''post_anything''}"
    using installed_methods_characterised [OF c, of "''ping''" ping]
    by (simp add: enumerate_SupportsHttpbin)
  then show ?thesis
    using c l g by blast
qed

text \<open>
  Claim C3 as stated fails: \<^verbatim>\<open>ping\<close> is not declared on the interface itself, only
  on its base, and it is enumerated.
\<close>

theorem inherited_method_enumerated_counterexample:
  "map_of (hd (mro SupportsHttpbin)) ''ping'' = None \<and>
   lookup_mro (tl (mro SupportsHttpbin)) ''ping'' = Some (Callable ping) \<and>
   map fst (fst (enumerate_methods SupportsHttpbin)) = [''ping'', ''post_anything'']"
  by (simp add: enumerate_SupportsHttpbin) (simp add: SupportsHttpbin_def)

section \<open>Properties of a bound call\<close>













lemma HttpxBackend_call_cases:
  "HttpxBackend_call self r t exs = (result, evs) \<Longrightarrow>
   (\<exists>e. client self (transport_arguments r) = Inl e \<and> result = Inl e \<and>
        evs = [Transport (transport_arguments r)]) \<or>
   (\<exists>resp e. client self (transport_arguments r) = Inr resp \<and> raise_for_status resp = Some e \<and>
        result = Inl e \<and> evs = [Transport (transport_arguments r)]) \<or>
   (\<exists>resp. client self (transport_arguments r) = Inr resp \<and> raise_for_status resp = None \<and>
        result = parse_response self resp t exs \<and>
        evs = [Transport (transport_arguments r), Decode resp])"
  by (auto simp: HttpxBackend_call_def split: sum.splits option.splits)










section \<open>Properties of bound services\<close>





section \<open>Properties of the memoization table\<close>





















end
